theory Spec2Isabelle
  imports Complex_Main "HOL-Library.AList"
begin

section \<open>Python values the backend computes with\<close>

subsection \<open>Floats\<close>

text \<open>
  A Python \<^verbatim>\<open>float\<close> is an IEEE double: a finite value (always a rational number),
  one of the two infinities, or NaN. Comparison of finite doubles is exact, so the
  finite values are modelled by the rationals they denote. Every comparison with NaN
  is false, as in Python.
\<close>

datatype pyfloat = Finite rat | PosInf | NegInf | NaN

fun float_lt :: "pyfloat \<Rightarrow> pyfloat \<Rightarrow> bool" where
  "float_lt NaN y = False"
| "float_lt x NaN = False"
| "float_lt (Finite a) (Finite b) = (a < b)"
| "float_lt (Finite a) PosInf = True"
| "float_lt (Finite a) NegInf = False"
| "float_lt PosInf y = False"
| "float_lt NegInf (Finite b) = True"
| "float_lt NegInf PosInf = True"
| "float_lt NegInf NegInf = False"

fun float_ge :: "pyfloat \<Rightarrow> pyfloat \<Rightarrow> bool" where
  "float_ge NaN y = False"
| "float_ge x NaN = False"
| "float_ge (Finite a) (Finite b) = (b \<le> a)"
| "float_ge PosInf y = True"
| "float_ge x NegInf = True"
| "float_ge (Finite a) PosInf = False"
| "float_ge NegInf y = False"

text \<open>The chained comparison \<^verbatim>\<open>0.0 < t < 1.0\<close>.\<close>

definition strictly_between_0_1 :: "pyfloat \<Rightarrow> bool" where
  "strictly_between_0_1 t = (float_lt (Finite 0) t \<and> float_lt t (Finite 1))"

text \<open>The closed interval \<^verbatim>\<open>0.0 <= p <= 1.0\<close> of a probability.\<close>

definition within_0_1 :: "pyfloat \<Rightarrow> bool" where
  "within_0_1 p = (float_ge p (Finite 0) \<and> float_ge (Finite 1) p)"

text \<open>
  The literal \<^verbatim>\<open>0.6\<close> is the double nearest to 6/10, which is
  5404319552844595 / 2^53.
\<close>

definition float_0_6 :: pyfloat where
  "float_0_6 = Finite (5404319552844595 / 9007199254740992)"

subsection \<open>Exceptions\<close>

text \<open>
  One constructor per exception class that the modelled code raises, catches or lets
  through, each with its message (\<^verbatim>\<open>str(exc)\<close>). \<^verbatim>\<open>HTTPException\<close>
  carries its status code and detail. The predicates follow Python's class hierarchy,
  which decides what an \<^verbatim>\<open>except\<close> clause catches.
\<close>

datatype exc =
    FileNotFoundError string
  | PermissionError string
  | OSError string
  | ValueError string
  | JSONDecodeError string
  | UnicodeDecodeError string
  | OverflowError string
  | TypeError string
  | RecursionError string
  | InvalidInputError string
  | KeyError string
  | HTTPException nat string
  | RuntimeError string

fun is_FileNotFoundError :: "exc \<Rightarrow> bool" where
  "is_FileNotFoundError (FileNotFoundError m) = True"
| "is_FileNotFoundError e = False"

fun is_OSError :: "exc \<Rightarrow> bool" where
  "is_OSError (FileNotFoundError m) = True"
| "is_OSError (PermissionError m) = True"
| "is_OSError (OSError m) = True"
| "is_OSError e = False"

fun is_JSONDecodeError :: "exc \<Rightarrow> bool" where
  "is_JSONDecodeError (JSONDecodeError m) = True"
| "is_JSONDecodeError e = False"

fun is_ValueError :: "exc \<Rightarrow> bool" where
  "is_ValueError (ValueError m) = True"
| "is_ValueError (JSONDecodeError m) = True"
| "is_ValueError (UnicodeDecodeError m) = True"
| "is_ValueError e = False"

fun is_InvalidInputError :: "exc \<Rightarrow> bool" where
  "is_InvalidInputError (InvalidInputError m) = True"
| "is_InvalidInputError e = False"

subsection \<open>Decimal text of a count\<close>

definition digit_char :: "nat \<Rightarrow> char" where
  "digit_char d = ''0123456789'' ! d"

function str_nat :: "nat \<Rightarrow> string" where
  "str_nat n = (if n < 10 then [digit_char n] else str_nat (n div 10) @ [digit_char (n mod 10)])"
  by pat_completeness auto
termination
  by (relation "measure id") auto

declare str_nat.simps [simp del]

fun str_exc :: "exc \<Rightarrow> string" where
  "str_exc (FileNotFoundError m) = m"
| "str_exc (PermissionError m) = m"
| "str_exc (OSError m) = m"
| "str_exc (ValueError m) = m"
| "str_exc (JSONDecodeError m) = m"
| "str_exc (UnicodeDecodeError m) = m"
| "str_exc (OverflowError m) = m"
| "str_exc (TypeError m) = m"
| "str_exc (RecursionError m) = m"
| "str_exc (InvalidInputError m) = m"
| "str_exc (KeyError m) = m"
| "str_exc (HTTPException c d) = str_nat c @ '': '' @ d"
| "str_exc (RuntimeError m) = m"

subsection \<open>What \<^verbatim>\<open>json.load\<close> returns\<close>

text \<open>
  A JSON document as Python objects: an object is a \<^verbatim>\<open>dict\<close> with string keys,
  kept as an association list in insertion order; \<^verbatim>\<open>d.get(k)\<close> is \<open>map_of d k\<close>
  and \<^verbatim>\<open>d[k] = v\<close> is \<open>AList.update k v d\<close> (replace in place, or append).
  A JSON number without fraction or exponent is a Python \<^verbatim>\<open>int\<close> of any size.
\<close>

datatype json =
    JNull
  | JBool bool
  | JInt int
  | JFloat pyfloat
  | JStr string
  | JList "json list"
  | JDict "(string \<times> json) list"

text \<open>
  The state of the metadata file, as the two readers see it:
  \<^item> \<open>Missing\<close>: \<^verbatim>\<open>os.path.exists\<close> is false;
  \<^item> \<open>LoadRaises e\<close>: the file exists and \<^verbatim>\<open>open\<close> or \<^verbatim>\<open>json.load\<close> raises \<open>e\<close>:
    an \<^verbatim>\<open>OSError\<close> for a file that cannot be opened, \<^verbatim>\<open>UnicodeDecodeError\<close> for
    bytes that are not UTF-8 (the file is opened with \<^verbatim>\<open>encoding="utf-8"\<close>),
    \<^verbatim>\<open>JSONDecodeError\<close> for text the parser rejects, \<^verbatim>\<open>RecursionError\<close> for
    text nested too deeply;
  \<^item> \<open>Content j\<close>: the file holds the JSON document \<open>j\<close>.
\<close>

datatype file_state = Missing | LoadRaises exc | Content json

subsection \<open>\<^verbatim>\<open>float(x)\<close> of an integer\<close>

text \<open>
  \<^verbatim>\<open>int.bit_length\<close> of a magnitude, and the conversion of a magnitude to the
  nearest double (53 significant bits, ties to even). A result of magnitude \<open>2^1024\<close> or more does
  not fit a double: Python raises \<^verbatim>\<open>OverflowError\<close>.
\<close>

function bit_length :: "int \<Rightarrow> nat" where
  "bit_length a = (if a \<le> 0 then 0 else Suc (bit_length (a div 2)))"
  by pat_completeness auto
termination
  by (relation "measure nat") auto

declare bit_length.simps [simp del]

definition round_to_53_bits :: "int \<Rightarrow> int" where
  "round_to_53_bits a =
     (let L = bit_length a in
      if L \<le> 53 then a
      else
        let s = L - 53; q = a div 2 ^ s; r = a mod 2 ^ s; h = 2 ^ (s - 1)
        in (if h < r \<or> (r = h \<and> odd q) then q + 1 else q) * 2 ^ s)"

definition float_of_int :: "int \<Rightarrow> exc + pyfloat" where
  "float_of_int n =
     (let m = round_to_53_bits \<bar>n\<bar> in
      if 2 ^ 1024 \<le> m then Inl (OverflowError ''int too large to convert to float'')
      else Inr (Finite (of_int (sgn n * m))))"

section \<open>The threshold resolver (main.py)\<close>

text \<open>
  Lines 104-105 and 107-108 of main.py apply the same test to a value read from the
  metadata dict: \<^verbatim>\<open>isinstance(x, (float, int)) and 0.0 < float(x) < 1.0\<close>, and return
  \<^verbatim>\<open>float(x)\<close> when it holds. \<^verbatim>\<open>bool\<close> is a subclass of \<^verbatim>\<open>int\<close>
  (\<^verbatim>\<open>float(True)\<close> is 1.0). The result is \<open>Inl e\<close> when \<^verbatim>\<open>float(x)\<close> raises,
  \<open>Inr (Some t)\<close> when the test holds, \<open>Inr None\<close> when it does not.
\<close>

fun checked_threshold :: "json option \<Rightarrow> exc + pyfloat option" where
  "checked_threshold (Some (JFloat t)) =
     Inr (if strictly_between_0_1 t then Some t else None)"
| "checked_threshold (Some (JInt n)) =
     (case float_of_int n of
        Inl e \<Rightarrow> Inl e
      | Inr t \<Rightarrow> Inr (if strictly_between_0_1 t then Some t else None))"
| "checked_threshold (Some (JBool b)) =
     (let t = Finite (if b then 1 else 0)
      in Inr (if strictly_between_0_1 t then Some t else None))"
| "checked_threshold x = Inr None"

text \<open>
  The body of the \<^verbatim>\<open>try\<close> block (lines 100-108), for a file that exists:
  \<open>Inr None\<close> when the block falls through without returning.
\<close>

fun threshold_from_metadata :: "file_state \<Rightarrow> exc + (pyfloat \<times> string) option" where
  "threshold_from_metadata (LoadRaises e) = Inl e"
| "threshold_from_metadata (Content (JDict metadata)) =
     (case checked_threshold (map_of metadata ''user_threshold'') of
        Inl e \<Rightarrow> Inl e
      | Inr (Some t) \<Rightarrow> Inr (Some (t, ''metadata:user''))
      | Inr None \<Rightarrow>
          (case checked_threshold (map_of metadata ''recommended_threshold'') of
             Inl e \<Rightarrow> Inl e
           | Inr (Some t) \<Rightarrow> Inr (Some (t, ''metadata:recommended''))
           | Inr None \<Rightarrow> Inr None))"
| "threshold_from_metadata f = Inr None"

text \<open>
  Lines 89-96. \<open>float_of_str\<close> is Python's \<^verbatim>\<open>float\<close> on a string: \<open>None\<close> when it
  raises \<^verbatim>\<open>ValueError\<close>. \<open>env_threshold\<close> is \<^verbatim>\<open>os.getenv("PRED_THRESHOLD")\<close>;
  an unset variable and the empty string are both falsy.
\<close>

definition env_override :: "(string \<Rightarrow> pyfloat option) \<Rightarrow> string option \<Rightarrow> pyfloat option" where
  "env_override float_of_str env_threshold =
     (case env_threshold of
        None \<Rightarrow> None
      | Some s \<Rightarrow>
          if s = [] then None
          else (case float_of_str s of
                  None \<Rightarrow> None
                | Some t \<Rightarrow> if strictly_between_0_1 t then Some t else None))"

text \<open>
  \<^verbatim>\<open>_resolve_threshold_with_source\<close> (lines 88-112). The handler
  \<^verbatim>\<open>except (json.JSONDecodeError, OSError)\<close> catches exactly those two classes and
  their subclasses; any other exception leaves the function.
\<close>

definition resolve_threshold_with_source ::
  "(string \<Rightarrow> pyfloat option) \<Rightarrow> string option \<Rightarrow> file_state \<Rightarrow> exc + (pyfloat \<times> string)" where
  "resolve_threshold_with_source float_of_str env_threshold metadata_file =
     (case env_override float_of_str env_threshold of
        Some t \<Rightarrow> Inr (t, ''env'')
      | None \<Rightarrow>
          if metadata_file = Missing then Inr (float_0_6, ''default'')
          else (case threshold_from_metadata metadata_file of
                  Inl e \<Rightarrow>
                    if is_JSONDecodeError e \<or> is_OSError e then Inr (float_0_6, ''default'')
                    else Inl e
                | Inr (Some r) \<Rightarrow> Inr r
                | Inr None \<Rightarrow> Inr (float_0_6, ''default'')))"

subsection \<open>The priority chain as the specification words it\<close>

text \<open>
  Section 4.2 of the specification, written down independently of the code, to compare
  the resolver with: the four sources in their order, the first satisfied one wins.
  An override is provided when the variable is set to a non-empty text; a persisted
  threshold is a number stored under its key in metadata that is a JSON object; a
  value is accepted only if it lies strictly between 0.0 and 1.0.
\<close>

datatype threshold_source =
  Src_env | Src_metadata_user | Src_metadata_recommended | Src_default

fun source_name :: "threshold_source \<Rightarrow> string" where
  "source_name Src_env = ''env''"
| "source_name Src_metadata_user = ''metadata:user''"
| "source_name Src_metadata_recommended = ''metadata:recommended''"
| "source_name Src_default = ''default''"

definition accepted :: "pyfloat option \<Rightarrow> pyfloat option" where
  "accepted x =
     (case x of None \<Rightarrow> None | Some t \<Rightarrow> if strictly_between_0_1 t then Some t else None)"

definition provided_override :: "(string \<Rightarrow> pyfloat option) \<Rightarrow> string option \<Rightarrow> pyfloat option" where
  "provided_override float_of_str env_threshold =
     (case env_threshold of None \<Rightarrow> None | Some s \<Rightarrow> if s = [] then None else float_of_str s)"

fun persisted_number :: "file_state \<Rightarrow> string \<Rightarrow> pyfloat option" where
  "persisted_number (Content (JDict metadata)) k =
     (case map_of metadata k of
        Some (JFloat t) \<Rightarrow> Some t
      | Some (JInt n) \<Rightarrow> Some (Finite (of_int n))
      | _ \<Rightarrow> None)"
| "persisted_number f k = None"

definition priority_chain ::
  "(string \<Rightarrow> pyfloat option) \<Rightarrow> string option \<Rightarrow> file_state \<Rightarrow> pyfloat \<times> threshold_source" where
  "priority_chain float_of_str env_threshold metadata_file =
     (case accepted (provided_override float_of_str env_threshold) of
        Some t \<Rightarrow> (t, Src_env)
      | None \<Rightarrow>
          (case accepted (persisted_number metadata_file ''user_threshold'') of
             Some t \<Rightarrow> (t, Src_metadata_user)
           | None \<Rightarrow>
               (case accepted (persisted_number metadata_file ''recommended_threshold'') of
                  Some t \<Rightarrow> (t, Src_metadata_recommended)
                | None \<Rightarrow> (float_0_6, Src_default))))"

section \<open>The admin threshold update (main.py)\<close>

text \<open>
  Lines 266-274 of \<^verbatim>\<open>update_threshold\<close>: the dict that the update starts from.
  Only \<^verbatim>\<open>json.JSONDecodeError\<close> is caught here; a document that is not an object
  is ignored.
\<close>

fun loaded_metadata :: "file_state \<Rightarrow> exc + (string \<times> json) list" where
  "loaded_metadata Missing = Inr []"
| "loaded_metadata (LoadRaises e) = (if is_JSONDecodeError e then Inr [] else Inl e)"
| "loaded_metadata (Content (JDict loaded)) = Inr loaded"
| "loaded_metadata (Content j) = Inr []"

text \<open>
  \<^verbatim>\<open>update_threshold\<close> (lines 259-283), after the admin-token dependency has passed.
  \<open>threshold\<close> is \<^verbatim>\<open>payload.threshold\<close>, a float; \<open>now\<close> is
  \<^verbatim>\<open>datetime.utcnow().isoformat()\<close>. The function returns its response or the
  exception it raises, and the metadata file it leaves behind. The dict written was
  loaded by \<^verbatim>\<open>json.load\<close> and extended by a float and a string, so \<^verbatim>\<open>json.dump\<close>
  writes it back as it is; faults of the storage itself while writing are not modelled.
\<close>

definition update_threshold ::
  "pyfloat \<Rightarrow> string \<Rightarrow> file_state \<Rightarrow> (exc + pyfloat \<times> string) \<times> file_state" where
  "update_threshold threshold now metadata_file =
     (if \<not> strictly_between_0_1 threshold
      then (Inl (HTTPException 400 ''Threshold must be between 0 and 1.''), metadata_file)
      else
        (case loaded_metadata metadata_file of
           Inl e \<Rightarrow> (Inl e, metadata_file)
         | Inr metadata \<Rightarrow>
             (Inr (threshold, ''metadata''),
              Content (JDict
                (AList.update ''user_threshold_set_at'' (JStr (now @ ''Z''))
                  (AList.update ''user_threshold'' (JFloat threshold) metadata))))))"

text \<open>\<^verbatim>\<open>get_threshold\<close> (lines 286-289) returns what the resolver returns.\<close>

definition get_threshold ::
  "(string \<Rightarrow> pyfloat option) \<Rightarrow> string option \<Rightarrow> file_state \<Rightarrow> exc + (pyfloat \<times> string)" where
  "get_threshold float_of_str env_threshold metadata_file =
     resolve_threshold_with_source float_of_str env_threshold metadata_file"

section \<open>Training (ml/train.py)\<close>

subsection \<open>Data\<close>

text \<open>
  A row of the data: the three features, each possibly missing. A training sample adds
  the label (missing in a row that \<^verbatim>\<open>dropna\<close> removes); an enrollment adds the two
  identifiers.
\<close>

record features =
  attendance :: "pyfloat option"
  marks :: "pyfloat option"
  internal_score :: "pyfloat option"

record sample = features +
  result :: "int option"

record enrollment = features +
  student_id :: int
  course_id :: int

text \<open>
  What is at a path: nothing, a file that \<^verbatim>\<open>pd.read_csv\<close> or \<^verbatim>\<open>dropna\<close> rejects
  with an exception, or a table with the four columns.
\<close>

datatype dataset = NoSuchFile | ReadRaises exc | Table "sample list"

text \<open>
  The fitted scaler and classifier, as the function they compute together: from the
  three features to the probability of the positive class.
\<close>

type_synonym artifact = "pyfloat \<Rightarrow> pyfloat \<Rightarrow> pyfloat \<Rightarrow> pyfloat"

text \<open>
  What lines 35-56 of \<^verbatim>\<open>train_model\<close> obtain from scikit-learn when none of the
  calls raises: the fitted artifact and the five scores.
\<close>

record fitted =
  fitted_model :: artifact
  accuracy :: pyfloat
  precision :: pyfloat
  recall :: pyfloat
  f1_score :: pyfloat
  roc_auc :: pyfloat

text \<open>The two files that training writes and prediction reads.\<close>

record storage =
  artifact_file :: "artifact option"
  metadata_json :: file_state

subsection \<open>The metadata dict in memory and \<^verbatim>\<open>json.dump\<close>\<close>

text \<open>
  The objects that \<^verbatim>\<open>train_model\<close> puts into its metadata dict. The values of
  \<^verbatim>\<open>dict(df["result"].value_counts())\<close> are read from the Series one by one and
  are \<^verbatim>\<open>numpy.int64\<close> scalars, not Python \<^verbatim>\<open>int\<close>s; the keys are the labels.
\<close>

datatype pykey = KStr string | KInt int

datatype pyval =
    PyFloat pyfloat
  | PyInt int
  | NpInt64 int
  | PyDict "(pykey \<times> pyval) list"

definition str_int :: "int \<Rightarrow> string" where
  "str_int n = (if n < 0 then ''-'' @ str_nat (nat (- n)) else str_nat (nat n))"

fun key_str :: "pykey \<Rightarrow> string" where
  "key_str (KStr s) = s"
| "key_str (KInt n) = str_int n"

text \<open>
  \<^verbatim>\<open>json.dump\<close>: the document written, or the exception of the encoder. Floats,
  ints and dicts are encoded (an int key by its decimal text); the encoder knows no
  \<^verbatim>\<open>numpy.int64\<close> and raises \<^verbatim>\<open>TypeError\<close> at the first one it reaches.
\<close>

fun json_dump :: "pyval \<Rightarrow> exc + json"
  and json_dump_items :: "(pykey \<times> pyval) list \<Rightarrow> exc + (string \<times> json) list" where
  "json_dump (PyFloat x) = Inr (JFloat x)"
| "json_dump (PyInt n) = Inr (JInt n)"
| "json_dump (NpInt64 n) = Inl (TypeError ''Object of type int64 is not JSON serializable'')"
| "json_dump (PyDict items) =
     (case json_dump_items items of Inl e \<Rightarrow> Inl e | Inr d \<Rightarrow> Inr (JDict d))"
| "json_dump_items [] = Inr []"
| "json_dump_items ((k, v) # items) =
     (case json_dump v of
        Inl e \<Rightarrow> Inl e
      | Inr j \<Rightarrow>
          (case json_dump_items items of
             Inl e \<Rightarrow> Inl e
           | Inr d \<Rightarrow> Inr ((key_str k, j) # d)))"

text \<open>
  \<^verbatim>\<open>Series.value_counts\<close>: each distinct label with the number of its occurrences
  (pandas orders them by falling count; nothing here depends on the order).
\<close>

definition value_counts :: "int list \<Rightarrow> (int \<times> nat) list" where
  "value_counts labels = map (\<lambda>l. (l, count_list labels l)) (remdups labels)"

subsection \<open>\<^verbatim>\<open>train_model\<close> and \<^verbatim>\<open>train_from_csv\<close>\<close>

text \<open>
  \<^verbatim>\<open>train_model\<close> (lines 30-72). \<open>sklearn\<close> stands for lines 35-56: the exception
  that one of the scikit-learn calls raises on this frame, or what they return.
  \<^verbatim>\<open>joblib.dump\<close> replaces the artifact file; then the metadata file is opened with
  mode \<^verbatim>\<open>"w"\<close>, which empties it, and \<^verbatim>\<open>json.dump\<close> writes into it piece by
  piece: when the encoder raises, the file is left holding the beginning of a
  document, which \<^verbatim>\<open>json.load\<close> rejects with \<^verbatim>\<open>JSONDecodeError\<close> (its
  message, which gives the position, is shortened here). Faults of the storage itself
  while writing are not modelled.
\<close>

definition metadata_of :: "fitted \<Rightarrow> sample list \<Rightarrow> pyval" where
  "metadata_of fit df =
     PyDict
       [(KStr ''roc_auc'', PyFloat (roc_auc fit)),
        (KStr ''samples_used'', PyInt (int (length df))),
        (KStr ''class_counts'',
           PyDict (map (\<lambda>(l, c). (KInt l, NpInt64 (int c)))
                     (value_counts (List.map_filter result df)))),
        (KStr ''recommended_threshold'', PyFloat float_0_6)]"

definition metrics_of :: "fitted \<Rightarrow> (string \<times> pyfloat) list" where
  "metrics_of fit =
     [(''accuracy'', accuracy fit), (''precision'', precision fit),
      (''recall'', recall fit), (''f1_score'', f1_score fit)]"

definition train_model ::
  "(sample list \<Rightarrow> exc + fitted) \<Rightarrow> sample list \<Rightarrow> storage \<Rightarrow>
   (exc + artifact \<times> (string \<times> pyfloat) list \<times> pyval) \<times> storage" where
  "train_model sklearn df st =
     (case sklearn df of
        Inl e \<Rightarrow> (Inl e, st)
      | Inr fit \<Rightarrow>
          let metadata = metadata_of fit df;
              st1 = st\<lparr>artifact_file := Some (fitted_model fit)\<rparr>
          in (case json_dump metadata of
                Inl e \<Rightarrow>
                  (Inl e, st1\<lparr>metadata_json := LoadRaises (JSONDecodeError ''Expecting value'')\<rparr>)
              | Inr document \<Rightarrow>
                  (Inr (fitted_model fit, metrics_of fit, metadata),
                   st1\<lparr>metadata_json := Content document\<rparr>)))"

text \<open>\<^verbatim>\<open>df.dropna(subset=["result"])\<close>.\<close>

definition dropna_result :: "sample list \<Rightarrow> sample list" where
  "dropna_result rows = filter (\<lambda>r. result r \<noteq> None) rows"

text \<open>
  \<^verbatim>\<open>train_from_csv\<close> (lines 75-95). \<open>files\<close> says what is at each path;
  \<open>data_dir\<close> is \<^verbatim>\<open>DATA_DIR\<close>, used when no path is given.
\<close>

definition dataset_path :: "string \<Rightarrow> string option \<Rightarrow> string" where
  "dataset_path data_dir csv_path =
     (case csv_path of None \<Rightarrow> data_dir @ ''/student_data_sample.csv'' | Some p \<Rightarrow> p)"

definition insufficient_data :: "nat \<Rightarrow> exc" where
  "insufficient_data n =
     ValueError (''Insufficient data for training. Need at least 10 samples, got '' @ str_nat n)"

definition train_from_csv ::
  "(sample list \<Rightarrow> exc + fitted) \<Rightarrow> (string \<Rightarrow> dataset) \<Rightarrow> string \<Rightarrow> string option \<Rightarrow> storage \<Rightarrow>
   (exc + artifact \<times> (string \<times> pyfloat) list \<times> pyval) \<times> storage" where
  "train_from_csv sklearn files data_dir csv_path st =
     (let path = dataset_path data_dir csv_path
      in (case files path of
            NoSuchFile \<Rightarrow> (Inl (FileNotFoundError (''Dataset not found at '' @ path)), st)
          | ReadRaises e \<Rightarrow> (Inl e, st)
          | Table rows \<Rightarrow>
              let df = dropna_result rows
              in if length df < 10 then (Inl (insufficient_data (length df)), st)
                 else train_model sklearn df st))"

section \<open>The retrain endpoint (main.py)\<close>

text \<open>
  The three \<^verbatim>\<open>except\<close> clauses of \<^verbatim>\<open>retrain\<close> (lines 245-256), in their order:
  \<^verbatim>\<open>FileNotFoundError\<close>, then \<^verbatim>\<open>ValueError\<close> (with its subclasses), then every
  other \<^verbatim>\<open>Exception\<close>.
\<close>

definition retrain_handler :: "exc \<Rightarrow> exc" where
  "retrain_handler e =
     (if is_FileNotFoundError e
      then HTTPException 404
             ''CSV file not found. Please ensure student_data_sample.csv exists in /data.''
      else if is_ValueError e then HTTPException 400 (str_exc e)
      else HTTPException 500 (''Training error: '' @ str_exc e))"

text \<open>\<^verbatim>\<open>metadata.get(key)\<close> on the dict that training returned, and \<^verbatim>\<open>metrics[key]\<close>.\<close>

fun py_get :: "pyval \<Rightarrow> string \<Rightarrow> pyval option" where
  "py_get (PyDict items) k = map_of items (KStr k)"
| "py_get v k = None"

definition metric :: "(string \<times> pyfloat) list \<Rightarrow> string \<Rightarrow> exc + pyfloat" where
  "metric metrics k = (case map_of metrics k of None \<Rightarrow> Inl (KeyError k) | Some x \<Rightarrow> Inr x)"

record retrain_response =
  resp_accuracy :: pyfloat
  resp_precision :: pyfloat
  resp_recall :: pyfloat
  resp_f1_score :: pyfloat
  resp_roc_auc :: "pyval option"
  resp_timestamp :: string
  resp_samples_used :: pyval
  resp_class_distribution :: pyval
  resp_class_counts :: pyval
  resp_recommended_threshold :: pyval
  resp_metrics_cv :: pyval
  resp_user_threshold :: "pyval option"

text \<open>
  The dict returned at lines 229-244 (the two configured paths, which it echoes, are
  left out). \<open>now\<close> is \<^verbatim>\<open>datetime.utcnow().isoformat()\<close>.
\<close>

definition retrain_body :: "(string \<times> pyfloat) list \<Rightarrow> pyval \<Rightarrow> string \<Rightarrow> exc + retrain_response" where
  "retrain_body metrics metadata now =
     (case metric metrics ''accuracy'' of
        Inl e \<Rightarrow> Inl e
      | Inr a \<Rightarrow>
     (case metric metrics ''precision'' of
        Inl e \<Rightarrow> Inl e
      | Inr p \<Rightarrow>
     (case metric metrics ''recall'' of
        Inl e \<Rightarrow> Inl e
      | Inr r \<Rightarrow>
     (case metric metrics ''f1_score'' of
        Inl e \<Rightarrow> Inl e
      | Inr f \<Rightarrow>
        Inr \<lparr>resp_accuracy = a, resp_precision = p, resp_recall = r, resp_f1_score = f,
             resp_roc_auc = py_get metadata ''roc_auc'',
             resp_timestamp = now @ ''Z'',
             resp_samples_used = case_option (PyInt 0) id (py_get metadata ''samples_used''),
             resp_class_distribution =
               case_option (PyDict []) id (py_get metadata ''class_distribution''),
             resp_class_counts = case_option (PyDict []) id (py_get metadata ''class_counts''),
             resp_recommended_threshold =
               case_option (PyFloat float_0_6) id (py_get metadata ''recommended_threshold''),
             resp_metrics_cv = case_option (PyDict []) id (py_get metadata ''metrics_cv''),
             resp_user_threshold = py_get metadata ''user_threshold''\<rparr>))))"

text \<open>
  \<^verbatim>\<open>retrain\<close> (lines 218-256), after the admin-token dependency has passed.
  \<open>data_dir_abs\<close> is \<^verbatim>\<open>DATA_DIR_ABS\<close>.
\<close>

definition retrain ::
  "(sample list \<Rightarrow> exc + fitted) \<Rightarrow> (string \<Rightarrow> dataset) \<Rightarrow> string \<Rightarrow> string \<Rightarrow> storage \<Rightarrow>
   (exc + retrain_response) \<times> storage" where
  "retrain sklearn files data_dir_abs now st =
     (case train_from_csv sklearn files data_dir_abs
             (Some (data_dir_abs @ ''/student_data_sample.csv'')) st of
        (Inl e, st') \<Rightarrow> (Inl (retrain_handler e), st')
      | (Inr (model, metrics, metadata), st') \<Rightarrow>
          (case retrain_body metrics metadata now of
             Inl e \<Rightarrow> (Inl (retrain_handler e), st')
           | Inr response \<Rightarrow> (Inr response, st')))"

section \<open>Prediction\<close>

subsection \<open>The predictor\<close>

record prediction_result =
  probability :: pyfloat
  prediction :: int
  threshold_used :: pyfloat
  threshold_source :: string

record batch_prediction = prediction_result +
  for_student_id :: int
  for_course_id :: int

text \<open>The names of the required features that a row lacks.\<close>

definition missing_fields :: "'a features_scheme \<Rightarrow> string list" where
  "missing_fields f =
     (if attendance f = None then [''attendance''] else []) @
     (if marks f = None then [''marks''] else []) @
     (if internal_score f = None then [''internal_score''] else [])"

fun join_names :: "string list \<Rightarrow> string" where
  "join_names [] = []"
| "join_names [x] = x"
| "join_names (x # y # ys) = x @ '', '' @ join_names (y # ys)"

text \<open>\<^verbatim>\<open>prediction = 1 if probability >= threshold else 0\<close>.\<close>

definition label_of :: "pyfloat \<Rightarrow> pyfloat \<Rightarrow> int" where
  "label_of p threshold = (if float_ge p threshold then 1 else 0)"

text \<open>
  Modelled from the spec: \<^verbatim>\<open>Predictor.predict\<close> of ml/predictor.py, which is not
  among the sources (main.py only calls it). Following section 4.3 of the
  specification: the persisted artifact is loaded, and its absence is the
  model-not-trained failure (the \<^verbatim>\<open>FileNotFoundError\<close> that main.py answers with
  "Model not trained yet"); each of the three features must be present, otherwise
  \<^verbatim>\<open>InvalidInputError\<close> names the offending fields; the probability of the
  positive class is what scaler and classifier compute; the Threshold Resolver's
  current value turns it into the label, and threshold and source are reported.
\<close>

definition Predictor_predict ::
  "(string \<Rightarrow> pyfloat option) \<Rightarrow> string option \<Rightarrow> storage \<Rightarrow> 'a features_scheme \<Rightarrow>
   exc + prediction_result" where
  "Predictor_predict float_of_str env_threshold st f =
     (case artifact_file st of
        None \<Rightarrow> Inl (FileNotFoundError ''model artifact'')
      | Some model \<Rightarrow>
          (case (attendance f, marks f, internal_score f) of
             (Some a, Some m, Some i) \<Rightarrow>
               (case resolve_threshold_with_source float_of_str env_threshold (metadata_json st) of
                  Inl e \<Rightarrow> Inl e
                | Inr (threshold, source) \<Rightarrow>
                    Inr \<lparr>probability = model a m i,
                         prediction = label_of (model a m i) threshold,
                         threshold_used = threshold,
                         threshold_source = source\<rparr>)
           | _ \<Rightarrow> Inl (InvalidInputError (join_names (missing_fields f)))))"

text \<open>One row of a batch: its result, tagged with the row's identifiers, if the row is usable.\<close>

definition score_row ::
  "artifact \<Rightarrow> pyfloat \<Rightarrow> string \<Rightarrow> enrollment \<Rightarrow> batch_prediction option" where
  "score_row model threshold source e =
     (case (attendance e, marks e, internal_score e) of
        (Some a, Some m, Some i) \<Rightarrow>
          Some \<lparr>probability = model a m i,
                prediction = label_of (model a m i) threshold,
                threshold_used = threshold,
                threshold_source = source,
                for_student_id = student_id e,
                for_course_id = course_id e\<rparr>
      | _ \<Rightarrow> None)"

text \<open>
  Modelled from the spec: \<^verbatim>\<open>Predictor.predict_batch\<close> of ml/predictor.py, which is
  not among the sources. Following section 4.3 of the specification: the batch variant
  runs over a list of records, keeps their order, and tags each result with the
  identifiers of its row; a row with a missing required feature is excluded; the
  call fails outright only if no row is usable.
\<close>

definition Predictor_predict_batch ::
  "(string \<Rightarrow> pyfloat option) \<Rightarrow> string option \<Rightarrow> storage \<Rightarrow> enrollment list \<Rightarrow>
   exc + batch_prediction list" where
  "Predictor_predict_batch float_of_str env_threshold st rows =
     (case artifact_file st of
        None \<Rightarrow> Inl (FileNotFoundError ''model artifact'')
      | Some model \<Rightarrow>
          (case resolve_threshold_with_source float_of_str env_threshold (metadata_json st) of
             Inl e \<Rightarrow> Inl e
           | Inr (threshold, source) \<Rightarrow>
               let results = List.map_filter (score_row model threshold source) rows
               in if results = [] then Inl (InvalidInputError ''no usable row'')
                  else Inr results))"

subsection \<open>The two endpoints (main.py)\<close>

record predict_request = features +
  final_exam_score :: "pyfloat option"

text \<open>\<^verbatim>\<open>predict\<close> (lines 145-168): the predictor's result, or its exception as an HTTP error.\<close>

definition predict ::
  "(string \<Rightarrow> pyfloat option) \<Rightarrow> string option \<Rightarrow> storage \<Rightarrow> predict_request \<Rightarrow>
   exc + prediction_result" where
  "predict float_of_str env_threshold st request =
     (case Predictor_predict float_of_str env_threshold st request of
        Inr r \<Rightarrow> Inr r
      | Inl e \<Rightarrow>
          Inl (if is_InvalidInputError e then HTTPException 400 (str_exc e)
               else if is_FileNotFoundError e
               then HTTPException 503
                      ''Model not trained yet. Please train the model first using /api/retrain''
               else HTTPException 500 (''Prediction error: '' @ str_exc e)))"

text \<open>The test of lines 180-182: all three features are there.\<close>

definition complete :: "enrollment \<Rightarrow> bool" where
  "complete e = (attendance e \<noteq> None \<and> marks e \<noteq> None \<and> internal_score e \<noteq> None)"

definition no_complete_data :: string where
  "no_complete_data =
     ''No enrollments with complete data found for prediction. Please ensure students have attendance, marks, and internal_score values.''"

text \<open>
  \<^verbatim>\<open>predict_batch\<close> (lines 171-214), after the admin-token dependency has passed;
  \<open>enrollments\<close> is what the record store returns. The \<^verbatim>\<open>HTTPException\<close> of line
  192 is raised inside the \<^verbatim>\<open>try\<close> block, so the last clause,
  \<^verbatim>\<open>except Exception\<close>, catches it and raises status 500 in its place.
\<close>

definition predict_batch ::
  "(string \<Rightarrow> pyfloat option) \<Rightarrow> string option \<Rightarrow> storage \<Rightarrow> enrollment list \<Rightarrow>
   exc + (batch_prediction list \<times> nat)" where
  "predict_batch float_of_str env_threshold st enrollments =
     (let prediction_data = filter complete enrollments;
          body =
            (if prediction_data = [] then Inl (HTTPException 400 no_complete_data)
             else (case Predictor_predict_batch float_of_str env_threshold st prediction_data of
                     Inl e \<Rightarrow> Inl e
                   | Inr predictions \<Rightarrow> Inr (predictions, length predictions)))
      in (case body of
            Inr r \<Rightarrow> Inr r
          | Inl e \<Rightarrow>
              Inl (if is_FileNotFoundError e
                   then HTTPException 503
                          (''Model not trained yet. Please train the model first using /api/retrain. Error: ''
                           @ str_exc e)
                   else if is_InvalidInputError e
                   then HTTPException 400 (''Invalid input data: '' @ str_exc e)
                   else HTTPException 500 (''Batch prediction error: '' @ str_exc e))))"

section \<open>Properties\<close>

subsection \<open>Floats and integers\<close>

lemma strictly_between_0_1_iff:
  "strictly_between_0_1 t \<longleftrightarrow> (\<exists>q. t = Finite q \<and> 0 < q \<and> q < 1)"
  by (cases t) (auto simp: strictly_between_0_1_def)

lemma bit_length_pos: "0 < a \<Longrightarrow> bit_length a = Suc (bit_length (a div 2))"
  by (subst bit_length.simps) simp

lemma bit_length_nonpos: "a \<le> 0 \<Longrightarrow> bit_length a = 0"
  by (subst bit_length.simps) simp

lemma bit_length_bound: "a < 2 ^ bit_length a"
proof (induction a rule: bit_length.induct)
  case (1 a)
  show ?case
  proof (cases "a \<le> 0")
    case True
    then show ?thesis by (simp add: bit_length_nonpos)
  next
    case False
    with 1 have "a div 2 < 2 ^ bit_length (a div 2)" by simp
    then have "a < 2 * 2 ^ bit_length (a div 2)" by linarith
    with False show ?thesis by (simp add: bit_length_pos)
  qed
qed

lemma bit_length_lower: "0 < a \<Longrightarrow> 2 ^ (bit_length a - 1) \<le> a"
proof (induction a rule: bit_length.induct)
  case (1 a)
  show ?case
  proof (cases "a div 2 \<le> 0")
    case True
    with 1(2) have "a = 1" by linarith
    then show ?thesis by (simp add: bit_length_pos bit_length_nonpos)
  next
    case False
    with 1 have "2 ^ (bit_length (a div 2) - 1) \<le> a div 2" by simp
    moreover have "0 < bit_length (a div 2)" using False by (simp add: bit_length_pos)
    ultimately have "2 ^ bit_length (a div 2) \<le> 2 * (a div 2)"
      by (cases "bit_length (a div 2)") auto
    then have "2 ^ bit_length (a div 2) \<le> a" by linarith
    with 1(2) show ?thesis by (simp add: bit_length_pos)
  qed
qed

lemma round_to_53_bits_lower:
  assumes "0 < a"
  shows "2 ^ (bit_length a - 1) \<le> round_to_53_bits a"
proof (cases "bit_length a \<le> 53")
  case True
  then show ?thesis using bit_length_lower[OF assms] by (simp add: round_to_53_bits_def)
next
  case False
  define s where "s = bit_length a - 53"
  define q where "q = a div 2 ^ s"
  define P :: int where "P = 2 ^ 52"
  have L: "bit_length a - 1 = 52 + s" using False by (simp add: s_def)
  have "(2::int) ^ (52 + s) \<le> a" using bit_length_lower[OF assms] unfolding L .
  then have "P * 2 ^ s \<le> a" unfolding P_def power_add .
  then have "P * 2 ^ s div 2 ^ s \<le> a div 2 ^ s" by (intro zdiv_mono1) auto
  then have Pq: "P \<le> q" unfolding q_def by simp
  have ge: "P * 2 ^ s \<le> q * 2 ^ s" using Pq by (intro mult_right_mono) auto
  have ge1: "P * 2 ^ s \<le> (q + 1) * 2 ^ s" using Pq by (intro mult_right_mono) auto
  have res: "round_to_53_bits a =
      (if 2 ^ (s - 1) < a mod 2 ^ s \<or> (a mod 2 ^ s = 2 ^ (s - 1) \<and> odd q) then q + 1 else q) * 2 ^ s"
    using False unfolding round_to_53_bits_def Let_def s_def q_def by simp
  have "P * 2 ^ s \<le> round_to_53_bits a" unfolding res using ge ge1 by (simp split: if_splits)
  then show ?thesis unfolding L P_def power_add .
qed

lemma float_of_int_overflow:
  assumes "2 ^ 1024 \<le> \<bar>n\<bar>"
  shows "float_of_int n = Inl (OverflowError ''int too large to convert to float'')"
proof -
  define B :: int where "B = 2 ^ 1024"
  have "0 < B" unfolding B_def by (rule zero_less_power) simp
  then have pos: "0 < \<bar>n\<bar>" using assms unfolding B_def by linarith
  have "(2::int) ^ 1024 < 2 ^ bit_length \<bar>n\<bar>"
    using assms bit_length_bound[of "\<bar>n\<bar>"] unfolding B_def[symmetric] by linarith
  then have "1024 < bit_length \<bar>n\<bar>" by (rule power_less_imp_less_exp[rotated]) simp
  then have "(2::int) ^ 1024 \<le> 2 ^ (bit_length \<bar>n\<bar> - 1)"
    by (intro power_increasing) auto
  with round_to_53_bits_lower[OF pos] have "2 ^ 1024 \<le> round_to_53_bits \<bar>n\<bar>"
    unfolding B_def[symmetric] by linarith
  then show ?thesis unfolding float_of_int_def Let_def by (rule if_P)
qed

lemma float_of_int_not_between:
  assumes "float_of_int n = Inr t"
  shows "\<not> strictly_between_0_1 t"
proof -
  define k where "k = sgn n * round_to_53_bits \<bar>n\<bar>"
  have "t = Finite (of_int k)"
    using assms unfolding float_of_int_def Let_def k_def by (auto split: if_splits simp del: of_int_mult power_numeral)
  moreover have "\<not> (0 < k \<and> k < 1)" by linarith
  then have "\<not> (0 < (of_int k :: rat) \<and> (of_int k :: rat) < 1)" by simp
  ultimately show ?thesis by (simp add: strictly_between_0_1_iff)
qed

subsection \<open>The resolver against the priority chain\<close>

lemma int_not_strictly_between: "\<not> strictly_between_0_1 (Finite (of_int k))"
proof -
  have "\<not> (0 < k \<and> k < 1)" by linarith
  then have "\<not> (0 < (of_int k :: rat) \<and> (of_int k :: rat) < 1)" by simp
  then show ?thesis by (simp add: strictly_between_0_1_iff)
qed

lemma accepted_None: "accepted None = None"
  by (simp add: accepted_def)

lemma env_override_accepted:
  "env_override f env = accepted (provided_override f env)"
  by (simp add: env_override_def accepted_def provided_override_def split: option.splits)

lemma checked_threshold_accepted:
  assumes "checked_threshold (map_of m k) = Inr r"
  shows "accepted (persisted_number (Content (JDict m)) k) = r"
proof (cases "map_of m k")
  case None
  with assms show ?thesis by (simp add: accepted_def)
next
  case (Some j)
  show ?thesis
  proof (cases j)
    case (JInt n)
    with Some assms obtain t where t: "float_of_int n = Inr t"
      and r: "r = (if strictly_between_0_1 t then Some t else None)"
      by (auto split: sum.splits)
    from float_of_int_not_between[OF t] r have "r = None" by simp
    with Some JInt show ?thesis by (simp add: accepted_def int_not_strictly_between)
  next
    case (JBool b)
    with Some assms show ?thesis
      by (auto simp: accepted_def Let_def strictly_between_0_1_def)
  qed (use Some assms in \<open>auto simp: accepted_def\<close>)
qed

lemma threshold_from_metadata_chain:
  assumes "threshold_from_metadata md = Inr r"
  shows "r = (case accepted (persisted_number md ''user_threshold'') of
                Some t \<Rightarrow> Some (t, ''metadata:user'')
              | None \<Rightarrow>
                  (case accepted (persisted_number md ''recommended_threshold'') of
                     Some t \<Rightarrow> Some (t, ''metadata:recommended'')
                   | None \<Rightarrow> None))"
proof (cases md)
  case Missing
  with assms show ?thesis by (simp add: accepted_def)
next
  case (LoadRaises e)
  with assms show ?thesis by simp
next
  case (Content j)
  show ?thesis
  proof (cases j)
    case (JDict m)
    from assms Content JDict obtain u where
      u: "checked_threshold (map_of m ''user_threshold'') = Inr u"
      by (auto split: sum.splits)
    note ua = checked_threshold_accepted[OF u]
    show ?thesis
    proof (cases u)
      case (Some t)
      from assms have "r = Some (t, ''metadata:user'')"
        unfolding Content JDict by (simp add: u Some)
      then show ?thesis unfolding Content JDict ua Some by simp
    next
      case None
      with assms Content JDict u obtain v where
        v: "checked_threshold (map_of m ''recommended_threshold'') = Inr v"
        by (auto split: sum.splits)
      note va = checked_threshold_accepted[OF v]
      from assms have "r = (case v of None \<Rightarrow> None | Some t \<Rightarrow> Some (t, ''metadata:recommended''))"
        unfolding Content JDict by (simp add: u None v split: option.splits)
      then show ?thesis unfolding Content JDict ua va None by (simp split: option.splits)
    qed
  qed (use assms Content in \<open>simp_all add: accepted_def\<close>)
qed

lemma threshold_from_metadata_raises:
  assumes "threshold_from_metadata md = Inl e"
  shows "md = LoadRaises e \<or>
         (\<exists>m. md = Content (JDict m) \<and> e = OverflowError ''int too large to convert to float'')"
proof (cases md)
  case (Content j)
  show ?thesis
  proof (cases j)
    case (JDict m)
    have ct: "checked_threshold x = Inl e' \<Longrightarrow> e' = OverflowError ''int too large to convert to float''"
      for x e'
      by (cases x rule: checked_threshold.cases)
         (auto simp: float_of_int_def Let_def split: sum.splits if_splits simp del: power_numeral)
    from assms Content JDict show ?thesis
      by (auto split: sum.splits option.splits dest: ct)
  qed (use assms Content in simp_all)
qed (use assms in simp_all)

lemma resolve_refines_priority_chain:
  assumes "resolve_threshold_with_source f env md = Inr r"
  shows "r = map_prod id source_name (priority_chain f env md)"
proof (cases "env_override f env")
  case (Some t)
  with assms show ?thesis
    by (simp add: resolve_threshold_with_source_def priority_chain_def env_override_accepted)
next
  case None
  note env = None[unfolded env_override_accepted]
  show ?thesis
  proof (cases "threshold_from_metadata md")
    case (Inl e)
    from threshold_from_metadata_raises[OF Inl] show ?thesis
    proof
      assume "md = LoadRaises e"
      with assms None Inl show ?thesis
        by (auto simp: resolve_threshold_with_source_def priority_chain_def env accepted_None
            split: if_splits)
    next
      assume "\<exists>m. md = Content (JDict m) \<and> e = OverflowError ''int too large to convert to float''"
      with assms None Inl show ?thesis
        by (auto simp: resolve_threshold_with_source_def)
    qed
  next
    case (Inr x)
    note ch = threshold_from_metadata_chain[OF Inr]
    from assms None Inr have r: "r = (case x of None \<Rightarrow> (float_0_6, ''default'') | Some y \<Rightarrow> y)"
      by (auto simp: resolve_threshold_with_source_def split: if_splits option.splits)
    show ?thesis unfolding r ch priority_chain_def env
      by (simp split: option.splits)
  qed
qed

subsection \<open>Resolution and the threshold update\<close>

lemma resolve_degrades:
  assumes "env_override f env = None"
    and "md = Missing \<or> (\<exists>e. md = LoadRaises e \<and> (is_JSONDecodeError e \<or> is_OSError e))"
  shows "resolve_threshold_with_source f env md = Inr (float_0_6, ''default'')"
  using assms by (auto simp: resolve_threshold_with_source_def)

lemma resolve_lets_through:
  assumes "env_override f env = None" and "\<not> is_JSONDecodeError e" and "\<not> is_OSError e"
  shows "resolve_threshold_with_source f env (LoadRaises e) = Inl e"
  using assms by (simp add: resolve_threshold_with_source_def)

lemma resolve_overflow:
  assumes "env_override f env = None" and "map_of m ''user_threshold'' = Some (JInt n)"
    and "2 ^ 1024 \<le> \<bar>n\<bar>"
  shows "resolve_threshold_with_source f env (Content (JDict m)) =
         Inl (OverflowError ''int too large to convert to float'')"
  using assms(1,2) float_of_int_overflow[OF assms(3)]
  by (simp add: resolve_threshold_with_source_def)

text \<open>
  The four examples of the specification, with thresholds that are doubles: no override
  and no file; an override; metadata with a recommended threshold only; metadata with
  a user threshold as well.
\<close>

lemma resolve_threshold_examples:
  "resolve_threshold_with_source f None Missing = Inr (float_0_6, ''default'')"
  "f ''0.75'' = Some (Finite (3 / 4)) \<Longrightarrow>
   resolve_threshold_with_source f (Some ''0.75'') md = Inr (Finite (3 / 4), ''env'')"
  "resolve_threshold_with_source f None
     (Content (JDict [(''recommended_threshold'', JFloat (Finite (1 / 2)))])) =
   Inr (Finite (1 / 2), ''metadata:recommended'')"
  "resolve_threshold_with_source f None
     (Content (JDict [(''recommended_threshold'', JFloat (Finite (1 / 2))),
                      (''user_threshold'', JFloat (Finite (7 / 8)))])) =
   Inr (Finite (7 / 8), ''metadata:user'')"
  by (simp_all add: resolve_threshold_with_source_def env_override_def strictly_between_0_1_def)

text \<open>
  Claim C1. For every environment configuration and metadata-file state the resolver
  should return the first satisfied level of the priority chain. With no override set
  and metadata whose \<^verbatim>\<open>user_threshold\<close> is the integer \<open>10^400\<close> and whose
  \<^verbatim>\<open>recommended_threshold\<close> is 0.5, the chain yields 0.5 from the recommended
  level (the integer is not between 0 and 1), but \<^verbatim>\<open>float(user_threshold)\<close> raises
  \<^verbatim>\<open>OverflowError\<close>, which the handler does not catch: the resolver returns nothing.
  Wherever the resolver does return, it returns what the chain yields
  (\<open>resolve_refines_priority_chain\<close>).
\<close>

theorem resolve_threshold_overflow_instead_of_recommended:
  "resolve_threshold_with_source (\<lambda>s. None) None
     (Content (JDict [(''user_threshold'', JInt (10 ^ 400)),
                      (''recommended_threshold'', JFloat (Finite (1 / 2)))])) =
   Inl (OverflowError ''int too large to convert to float'') \<and>
   priority_chain (\<lambda>s. None) None
     (Content (JDict [(''user_threshold'', JInt (10 ^ 400)),
                      (''recommended_threshold'', JFloat (Finite (1 / 2)))])) =
   (Finite (1 / 2), Src_metadata_recommended)"
proof
  have big: "(2::int) ^ 1024 \<le> \<bar>10 ^ 400\<bar>" by simp
  show "resolve_threshold_with_source (\<lambda>s. None) None
     (Content (JDict [(''user_threshold'', JInt (10 ^ 400)),
                      (''recommended_threshold'', JFloat (Finite (1 / 2)))])) =
   Inl (OverflowError ''int too large to convert to float'')"
    by (rule resolve_overflow[OF _ _ big]) (simp_all add: env_override_def)
  have "\<not> strictly_between_0_1 (Finite (of_int (10 ^ 400)))"
    by (rule int_not_strictly_between)
  then show "priority_chain (\<lambda>s. None) None
     (Content (JDict [(''user_threshold'', JInt (10 ^ 400)),
                      (''recommended_threshold'', JFloat (Finite (1 / 2)))])) =
   (Finite (1 / 2), Src_metadata_recommended)"
    by (simp add: priority_chain_def provided_override_def accepted_def
        strictly_between_0_1_def del: of_int_power of_int_numeral)
qed

text \<open>
  Claim C7. The resolver should never raise, whatever the state of the metadata file.
  It does raise in two kinds of state: a file whose bytes are not UTF-8 (the
  \<^verbatim>\<open>UnicodeDecodeError\<close> of reading it is neither a \<^verbatim>\<open>JSONDecodeError\<close> nor an
  \<^verbatim>\<open>OSError\<close>), and metadata holding an integer threshold too large for a float.
  A missing file, a file that cannot be opened and text that the JSON parser rejects
  do degrade to the default (\<open>resolve_degrades\<close>).
\<close>

theorem resolve_threshold_raises:
  "resolve_threshold_with_source (\<lambda>s. None) None
     (LoadRaises (UnicodeDecodeError ''invalid start byte'')) =
   Inl (UnicodeDecodeError ''invalid start byte'') \<and>
   resolve_threshold_with_source (\<lambda>s. None) None
     (Content (JDict [(''user_threshold'', JInt (10 ^ 400))])) =
   Inl (OverflowError ''int too large to convert to float'')"
proof
  show "resolve_threshold_with_source (\<lambda>s. None) None
     (LoadRaises (UnicodeDecodeError ''invalid start byte'')) =
   Inl (UnicodeDecodeError ''invalid start byte'')"
    by (rule resolve_lets_through) (simp_all add: env_override_def)
  have big: "(2::int) ^ 1024 \<le> \<bar>10 ^ 400\<bar>" by simp
  show "resolve_threshold_with_source (\<lambda>s. None) None
     (Content (JDict [(''user_threshold'', JInt (10 ^ 400))])) =
   Inl (OverflowError ''int too large to convert to float'')"
    by (rule resolve_overflow[OF _ _ big]) (simp_all add: env_override_def)
qed

text \<open>
  Claim C2. The threshold update fails (status 400, the file untouched) whenever the
  value is not strictly between 0.0 and 1.0. For a value strictly between them it
  succeeds on existing metadata, and the metadata written is the prior metadata with
  exactly the keys \<^verbatim>\<open>user_threshold\<close> and \<^verbatim>\<open>user_threshold_set_at\<close> set: every
  other key keeps its value. Where no metadata file existed, the file created holds
  just these two keys.
\<close>

theorem update_threshold_patches_metadata:
  "(\<not> strictly_between_0_1 v \<longrightarrow>
      update_threshold v now md =
      (Inl (HTTPException 400 ''Threshold must be between 0 and 1.''), md)) \<and>
   (strictly_between_0_1 v \<longrightarrow>
      (\<exists>d'. update_threshold v now (Content (JDict d)) =
              (Inr (v, ''metadata''), Content (JDict d')) \<and>
            map_of d' = (map_of d)(''user_threshold'' \<mapsto> JFloat v,
                                   ''user_threshold_set_at'' \<mapsto> JStr (now @ ''Z''))) \<and>
      update_threshold v now Missing =
        (Inr (v, ''metadata''),
         Content (JDict [(''user_threshold'', JFloat v),
                         (''user_threshold_set_at'', JStr (now @ ''Z''))])))"
  by (simp add: update_threshold_def AList.update_conv')

theorem update_threshold_patches_metadata_witness:
  "\<not> strictly_between_0_1 (Finite (3 / 2)) \<and>
   update_threshold (Finite (3 / 2)) ''2024-05-01T10:00:00'' Missing =
     (Inl (HTTPException 400 ''Threshold must be between 0 and 1.''), Missing) \<and>
   strictly_between_0_1 (Finite (1 / 2)) \<and>
   (\<exists>d'. update_threshold (Finite (1 / 2)) ''2024-05-01T10:00:00''
            (Content (JDict [(''roc_auc'', JFloat (Finite (7 / 8))),
                             (''user_threshold'', JFloat (Finite (1 / 4)))])) =
          (Inr (Finite (1 / 2), ''metadata''), Content (JDict d')) \<and>
          map_of d' ''roc_auc'' = Some (JFloat (Finite (7 / 8))) \<and>
          map_of d' ''user_threshold'' = Some (JFloat (Finite (1 / 2))))"
proof -
  have out: "\<not> strictly_between_0_1 (Finite (3 / 2))"
    and ins: "strictly_between_0_1 (Finite (1 / 2))"
    by (simp_all add: strictly_between_0_1_def)
  from update_threshold_patches_metadata[of "Finite (3 / 2)" "''2024-05-01T10:00:00''" Missing] out
  have 1: "update_threshold (Finite (3 / 2)) ''2024-05-01T10:00:00'' Missing =
     (Inl (HTTPException 400 ''Threshold must be between 0 and 1.''), Missing)"
    by blast
  from update_threshold_patches_metadata[of "Finite (1 / 2)" "''2024-05-01T10:00:00''" Missing
      "[(''roc_auc'', JFloat (Finite (7 / 8))), (''user_threshold'', JFloat (Finite (1 / 4)))]"] ins
  obtain d' where
    "update_threshold (Finite (1 / 2)) ''2024-05-01T10:00:00''
            (Content (JDict [(''roc_auc'', JFloat (Finite (7 / 8))),
                             (''user_threshold'', JFloat (Finite (1 / 4)))])) =
          (Inr (Finite (1 / 2), ''metadata''), Content (JDict d'))"
    and "map_of d' = (map_of [(''roc_auc'', JFloat (Finite (7 / 8))),
                             (''user_threshold'', JFloat (Finite (1 / 4)))])
           (''user_threshold'' \<mapsto> JFloat (Finite (1 / 2)),
            ''user_threshold_set_at'' \<mapsto> JStr (''2024-05-01T10:00:00'' @ ''Z''))"
    by blast
  then have 2: "\<exists>d'. update_threshold (Finite (1 / 2)) ''2024-05-01T10:00:00''
            (Content (JDict [(''roc_auc'', JFloat (Finite (7 / 8))),
                             (''user_threshold'', JFloat (Finite (1 / 4)))])) =
          (Inr (Finite (1 / 2), ''metadata''), Content (JDict d')) \<and>
          map_of d' ''roc_auc'' = Some (JFloat (Finite (7 / 8))) \<and>
          map_of d' ''user_threshold'' = Some (JFloat (Finite (1 / 2)))"
    by (intro exI[of _ d']) simp
  from out 1 ins 2 show ?thesis by blast
qed

text \<open>
  Claim C8. If the threshold update succeeds for a value strictly between 0.0 and 1.0
  and no environment override is set, the resolver then returns that value with the
  source \<^verbatim>\<open>metadata:user\<close>.
\<close>

theorem set_user_threshold_then_resolve:
  assumes "strictly_between_0_1 v" and "update_threshold v now md = (Inr r, md')"
  shows "resolve_threshold_with_source f None md' = Inr (v, ''metadata:user'')"
proof -
  from assms obtain d where d: "loaded_metadata md = Inr d"
    and md': "md' = Content (JDict (AList.update ''user_threshold_set_at'' (JStr (now @ ''Z''))
                  (AList.update ''user_threshold'' (JFloat v) d)))"
    by (auto simp: update_threshold_def split: sum.splits)
  have "map_of (AList.update ''user_threshold_set_at'' (JStr (now @ ''Z''))
                  (AList.update ''user_threshold'' (JFloat v) d)) ''user_threshold'' = Some (JFloat v)"
    by (simp add: AList.update_conv')
  with assms(1) show ?thesis unfolding md'
    by (simp add: resolve_threshold_with_source_def env_override_def)
qed

theorem set_user_threshold_then_resolve_witness:
  "strictly_between_0_1 (Finite (1 / 4)) \<and>
   update_threshold (Finite (1 / 4)) ''2024-05-01T10:00:00'' Missing =
     (Inr (Finite (1 / 4), ''metadata''),
      Content (JDict [(''user_threshold'', JFloat (Finite (1 / 4))),
                      (''user_threshold_set_at'', JStr ''2024-05-01T10:00:00Z'')])) \<and>
   resolve_threshold_with_source (\<lambda>s. None) None
     (Content (JDict [(''user_threshold'', JFloat (Finite (1 / 4))),
                      (''user_threshold_set_at'', JStr ''2024-05-01T10:00:00Z'')])) =
     Inr (Finite (1 / 4), ''metadata:user'')"
proof -
  have ins: "strictly_between_0_1 (Finite (1 / 4))" by (simp add: strictly_between_0_1_def)
  have upd: "update_threshold (Finite (1 / 4)) ''2024-05-01T10:00:00'' Missing =
     (Inr (Finite (1 / 4), ''metadata''),
      Content (JDict [(''user_threshold'', JFloat (Finite (1 / 4))),
                      (''user_threshold_set_at'', JStr ''2024-05-01T10:00:00Z'')]))"
    using ins by (simp add: update_threshold_def)
  from set_user_threshold_then_resolve[OF ins upd] ins upd show ?thesis by blast
qed

lemma update_threshold_discards_rejected_text:
  assumes "strictly_between_0_1 v" and "is_JSONDecodeError e"
  shows "update_threshold v now (LoadRaises e) =
         (Inr (v, ''metadata''),
          Content (JDict [(''user_threshold'', JFloat v),
                          (''user_threshold_set_at'', JStr (now @ ''Z''))]))"
  using assms by (simp add: update_threshold_def)

text \<open>
  Claim C10. When the metadata file exists and its contents are not valid JSON, the
  threshold update should still succeed and write just its two keys. It does so when
  the parser rejects the text with \<^verbatim>\<open>JSONDecodeError\<close>
  (\<open>update_threshold_discards_rejected_text\<close>, stated before this theorem). But
  contents that are not UTF-8, or that nest brackets too deeply, make
  \<^verbatim>\<open>json.load\<close> raise \<^verbatim>\<open>UnicodeDecodeError\<close> or \<^verbatim>\<open>RecursionError\<close>, which
  the only handler, \<^verbatim>\<open>except json.JSONDecodeError\<close>, does not catch: the update
  raises and the file stays as it was.
\<close>

theorem update_threshold_lets_decode_errors_through:
  "update_threshold (Finite (1 / 2)) ''2024-05-01T10:00:00''
     (LoadRaises (UnicodeDecodeError ''invalid start byte'')) =
   (Inl (UnicodeDecodeError ''invalid start byte''),
    LoadRaises (UnicodeDecodeError ''invalid start byte'')) \<and>
   update_threshold (Finite (1 / 2)) ''2024-05-01T10:00:00''
     (LoadRaises (RecursionError ''maximum recursion depth exceeded'')) =
   (Inl (RecursionError ''maximum recursion depth exceeded''),
    LoadRaises (RecursionError ''maximum recursion depth exceeded''))"
  by (simp add: update_threshold_def strictly_between_0_1_def)

subsection \<open>Training\<close>

lemma json_dump_items_int64:
  "json_dump_items (map (\<lambda>(l, c). (KInt l, NpInt64 (int c))) counts) =
     (if counts = [] then Inr []
      else Inl (TypeError ''Object of type int64 is not JSON serializable''))"
  by (cases counts) (auto split: prod.splits)

lemma value_counts_empty: "value_counts labels = [] \<longleftrightarrow> labels = []"
  by (simp add: value_counts_def)

lemma json_dump_metadata_of:
  assumes "List.map_filter result df \<noteq> []"
  shows "json_dump (metadata_of fit df) =
         Inl (TypeError ''Object of type int64 is not JSON serializable'')"
  using assms by (simp add: metadata_of_def json_dump_items_int64 value_counts_empty)

lemma train_model_dump_fails:
  assumes "sklearn df = Inr fit" and "List.map_filter result df \<noteq> []"
  shows "train_model sklearn df st =
         (Inl (TypeError ''Object of type int64 is not JSON serializable''),
          st\<lparr>artifact_file := Some (fitted_model fit),
             metadata_json := LoadRaises (JSONDecodeError ''Expecting value'')\<rparr>)"
  using assms(1) json_dump_metadata_of[OF assms(2)] by (simp add: train_model_def Let_def)

lemma train_model_fit_fails:
  assumes "sklearn df = Inl e"
  shows "train_model sklearn df st = (Inl e, st)"
  using assms by (simp add: train_model_def)

lemma labels_of_dropna:
  "length (List.map_filter result (dropna_result rows)) = length (dropna_result rows)"
  by (simp add: List.map_filter_def dropna_result_def)

lemma train_from_csv_never_returns:
  "fst (train_from_csv sklearn files data_dir csv_path st) \<noteq> Inr r"
proof (cases "files (dataset_path data_dir csv_path)")
  case (Table rows)
  show ?thesis
  proof (cases "length (dropna_result rows) < 10")
    case True
    with Table show ?thesis by (simp add: train_from_csv_def)
  next
    case False
    then have "0 < length (dropna_result rows)" by linarith
    then have "0 < length (List.map_filter result (dropna_result rows))"
      unfolding labels_of_dropna .
    then have labels: "List.map_filter result (dropna_result rows) \<noteq> []"
      by (rule_tac notI) simp
    have "fst (train_model sklearn (dropna_result rows) st) \<noteq> Inr r"
    proof (cases "sklearn (dropna_result rows)")
      case (Inl e)
      then show ?thesis by (simp add: train_model_fit_fails)
    next
      case (Inr fit)
      from train_model_dump_fails[of sklearn "dropna_result rows" fit st, OF Inr labels]
      show ?thesis by simp
    qed
    with Table False show ?thesis by (simp add: train_from_csv_def)
  qed
qed (simp_all add: train_from_csv_def)

text \<open>
  Claim C4. Training fails with \<^verbatim>\<open>FileNotFoundError\<close> (the dataset-not-found failure)
  for every path at which there is no file, and with the \<^verbatim>\<open>ValueError\<close> that names
  the row count found (the insufficient-data failure) for every table that has fewer
  than 10 rows left once the rows without a label are dropped; with 10 rows or more
  neither check fires, and the outcome is that of \<^verbatim>\<open>train_model\<close> on the rows left.
\<close>

theorem train_from_csv_preconditions:
  "(files (dataset_path data_dir csv_path) = NoSuchFile \<longrightarrow>
      train_from_csv sklearn files data_dir csv_path st =
      (Inl (FileNotFoundError (''Dataset not found at '' @ dataset_path data_dir csv_path)), st)) \<and>
   (files (dataset_path data_dir csv_path) = Table rows \<and> length (dropna_result rows) < 10 \<longrightarrow>
      train_from_csv sklearn files data_dir csv_path st =
      (Inl (ValueError (''Insufficient data for training. Need at least 10 samples, got '' @
                        str_nat (length (dropna_result rows)))), st)) \<and>
   (files (dataset_path data_dir csv_path) = Table rows \<and> 10 \<le> length (dropna_result rows) \<longrightarrow>
      train_from_csv sklearn files data_dir csv_path st =
      train_model sklearn (dropna_result rows) st)"
  by (simp add: train_from_csv_def insufficient_data_def)


theorem train_from_csv_preconditions_witness:
  "train_from_csv (\<lambda>df. Inl (ValueError ''fit'')) (\<lambda>p. NoSuchFile) ''data'' (Some ''missing.csv'')
     \<lparr>artifact_file = None, metadata_json = Missing\<rparr> =
   (Inl (FileNotFoundError ''Dataset not found at missing.csv''),
    \<lparr>artifact_file = None, metadata_json = Missing\<rparr>) \<and>
   length (dropna_result
     (\<lparr>attendance = Some (Finite 60), marks = Some (Finite 50),
       internal_score = Some (Finite 12), result = None\<rparr> #
      replicate 5 \<lparr>attendance = Some (Finite 80), marks = Some (Finite 70),
                   internal_score = Some (Finite 15), result = Some 1\<rparr>)) = 5 \<and>
   train_from_csv (\<lambda>df. Inl (ValueError ''fit''))
     (\<lambda>p. Table
       (\<lparr>attendance = Some (Finite 60), marks = Some (Finite 50),
         internal_score = Some (Finite 12), result = None\<rparr> #
        replicate 5 \<lparr>attendance = Some (Finite 80), marks = Some (Finite 70),
                     internal_score = Some (Finite 15), result = Some 1\<rparr>))
     ''data'' None \<lparr>artifact_file = None, metadata_json = Missing\<rparr> =
   (Inl (ValueError ''Insufficient data for training. Need at least 10 samples, got 5''),
    \<lparr>artifact_file = None, metadata_json = Missing\<rparr>) \<and>
   train_from_csv (\<lambda>df. Inl (ValueError ''fit''))
     (\<lambda>p. Table
       (replicate 10 \<lparr>attendance = Some (Finite 80), marks = Some (Finite 70),
                      internal_score = Some (Finite 15), result = Some 1\<rparr>))
     ''data'' None \<lparr>artifact_file = None, metadata_json = Missing\<rparr> =
   (Inl (ValueError ''fit''), \<lparr>artifact_file = None, metadata_json = Missing\<rparr>)"
proof -
  let ?sk = "\<lambda>df :: sample list. (Inl (ValueError ''fit'') :: exc + fitted)"
  let ?st = "\<lparr>artifact_file = None, metadata_json = Missing\<rparr>"
  let ?lab = "\<lparr>attendance = Some (Finite 80), marks = Some (Finite 70),
               internal_score = Some (Finite 15), result = Some (1::int)\<rparr>"
  let ?unl = "\<lparr>attendance = Some (Finite 60), marks = Some (Finite 50),
               internal_score = Some (Finite 12), result = (None :: int option)\<rparr>"
  have five: "dropna_result (?unl # replicate 5 ?lab) = replicate 5 ?lab"
    and ten: "dropna_result (replicate 10 ?lab) = replicate 10 ?lab"
    by (simp_all add: dropna_result_def)
  have s5: "str_nat 5 = ''5''" by (simp add: str_nat.simps digit_char_def)
  from train_from_csv_preconditions[where files = "\<lambda>p. NoSuchFile" and data_dir = "''data''"
      and csv_path = "Some ''missing.csv''" and sklearn = ?sk and st = ?st]
  have 1: "train_from_csv ?sk (\<lambda>p. NoSuchFile) ''data'' (Some ''missing.csv'') ?st =
           (Inl (FileNotFoundError ''Dataset not found at missing.csv''), ?st)"
    by (simp add: dataset_path_def)
  from train_from_csv_preconditions[where files = "\<lambda>p. Table (?unl # replicate 5 ?lab)"
      and data_dir = "''data''" and csv_path = None and sklearn = ?sk and st = ?st
      and rows = "?unl # replicate 5 ?lab"]
  have 2: "train_from_csv ?sk (\<lambda>p. Table (?unl # replicate 5 ?lab)) ''data'' None ?st =
           (Inl (ValueError ''Insufficient data for training. Need at least 10 samples, got 5''), ?st)"
    unfolding five by (simp add: s5)
  from train_from_csv_preconditions[where files = "\<lambda>p. Table (replicate 10 ?lab)"
      and data_dir = "''data''" and csv_path = None and sklearn = ?sk and st = ?st
      and rows = "replicate 10 ?lab"]
  have 3: "train_from_csv ?sk (\<lambda>p. Table (replicate 10 ?lab)) ''data'' None ?st = (Inl (ValueError ''fit''), ?st)"
    unfolding ten by (simp add: train_model_fit_fails)
  have len: "length (dropna_result (?unl # replicate 5 ?lab)) = 5" unfolding five by simp
  from 1 len 2 3 show ?thesis by blast
qed

text \<open>
  Claim C5. After a successful training run the metadata file should hold the ROC-AUC,
  the sample count, the class counts and the recommended threshold 0.6, and nothing of
  what it held before. No run gets there: the values of \<^verbatim>\<open>class_counts\<close> are
  \<^verbatim>\<open>numpy.int64\<close> scalars, which \<^verbatim>\<open>json.dump\<close> cannot encode. On twenty
  labelled rows that scikit-learn fits and scores, \<^verbatim>\<open>train_from_csv\<close> raises
  \<^verbatim>\<open>TypeError\<close>; the artifact has been replaced by then, and the metadata file,
  emptied on opening, is left with the beginning of a document, not with the four keys.
  The same holds for every dataset and every outcome of fitting
  (\<open>train_from_csv_never_returns\<close>, \<open>train_model_dump_fails\<close>).
\<close>

theorem train_from_csv_leaves_broken_metadata:
  "train_from_csv
     (\<lambda>df. Inr \<lparr>fitted_model = (\<lambda>a m i. Finite (1 / 2)), accuracy = Finite 1,
                 precision = Finite 1, recall = Finite 1, f1_score = Finite 1,
                 roc_auc = Finite 1\<rparr>)
     (\<lambda>p. Table
       (replicate 10 \<lparr>attendance = Some (Finite 80), marks = Some (Finite 70),
                      internal_score = Some (Finite 15), result = Some 1\<rparr> @
        replicate 10 \<lparr>attendance = Some (Finite 30), marks = Some (Finite 20),
                      internal_score = Some (Finite 5), result = Some 0\<rparr>))
     ''data'' None
     \<lparr>artifact_file = None,
      metadata_json = Content (JDict [(''user_threshold'', JFloat (Finite (1 / 4)))])\<rparr> =
   (Inl (TypeError ''Object of type int64 is not JSON serializable''),
    \<lparr>artifact_file = Some (\<lambda>a m i. Finite (1 / 2)),
     metadata_json = LoadRaises (JSONDecodeError ''Expecting value'')\<rparr>)"
proof -
  let ?fit = "\<lparr>fitted_model = (\<lambda>a m i. Finite (1 / 2)), accuracy = Finite 1,
                 precision = Finite 1, recall = Finite 1, f1_score = Finite 1,
                 roc_auc = Finite 1\<rparr>"
  let ?rows = "replicate 10 \<lparr>attendance = Some (Finite 80), marks = Some (Finite 70),
                      internal_score = Some (Finite 15), result = Some (1::int)\<rparr> @
        replicate 10 \<lparr>attendance = Some (Finite 30), marks = Some (Finite 20),
                      internal_score = Some (Finite 5), result = Some 0\<rparr>"
  let ?st = "\<lparr>artifact_file = None,
      metadata_json = Content (JDict [(''user_threshold'', JFloat (Finite (1 / 4)))])\<rparr>"
  have df: "dropna_result ?rows = ?rows" by (simp add: dropna_result_def)
  have "length (List.map_filter result ?rows) = 20"
    using labels_of_dropna[of ?rows] unfolding df by simp
  then have labels: "List.map_filter result ?rows \<noteq> []" by (rule_tac notI) simp
  have "train_model (\<lambda>df. Inr ?fit) ?rows ?st =
        (Inl (TypeError ''Object of type int64 is not JSON serializable''),
         ?st\<lparr>artifact_file := Some (fitted_model ?fit),
             metadata_json := LoadRaises (JSONDecodeError ''Expecting value'')\<rparr>)"
    by (rule train_model_dump_fails[of "\<lambda>df. Inr ?fit" ?rows ?fit ?st, OF refl labels])
  moreover have "\<not> length ?rows < 10" by simp
  ultimately show ?thesis by (simp add: train_from_csv_def Let_def df del: replicate_append_same)
qed

lemma retrain_handler_ValueError: "retrain_handler (ValueError m) = HTTPException 400 m"
  by (simp add: retrain_handler_def)

lemma retrain_handler_other:
  "\<not> is_FileNotFoundError e \<Longrightarrow> \<not> is_ValueError e \<Longrightarrow>
   retrain_handler e = HTTPException 500 (''Training error: '' @ str_exc e)"
  by (simp add: retrain_handler_def)

lemma retrain_fit_error:
  assumes "files (data_dir_abs @ ''/student_data_sample.csv'') = Table rows"
    and "10 \<le> length (dropna_result rows)" and "sklearn (dropna_result rows) = Inl e"
  shows "retrain sklearn files data_dir_abs now st = (Inl (retrain_handler e), st)"
  using assms by (simp add: retrain_def train_from_csv_def dataset_path_def train_model_fit_fails)

lemma retrain_insufficient:
  assumes "files (data_dir_abs @ ''/student_data_sample.csv'') = Table rows"
    and "length (dropna_result rows) < 10"
  shows "retrain sklearn files data_dir_abs now st =
         (Inl (HTTPException 400 (str_exc (insufficient_data (length (dropna_result rows))))), st)"
  using assms
  by (simp add: retrain_def train_from_csv_def dataset_path_def insufficient_data_def
      retrain_handler_def)

text \<open>
  Claim C6. An exception raised while fitting or scoring should reach the caller as a
  generic training failure, apart from the two precondition failures. Ten labelled rows
  of one class make scikit-learn raise \<^verbatim>\<open>ValueError\<close>; \<^verbatim>\<open>train_from_csv\<close> lets it
  through as it is, and \<^verbatim>\<open>retrain\<close> answers it in its \<^verbatim>\<open>except ValueError\<close>
  clause with status 400, the status and the exception class of the insufficient-data
  failure (five labelled rows), not with the status 500 of its "Training error" clause.
\<close>

theorem retrain_confuses_fit_error_with_insufficient_data:
  "retrain
     (\<lambda>df. Inl (ValueError ''This solver needs samples of at least 2 classes in the data, but the data contains only one class: 1''))
     (\<lambda>p. Table (replicate 10 \<lparr>attendance = Some (Finite 80), marks = Some (Finite 70),
                                 internal_score = Some (Finite 15), result = Some 1\<rparr>))
     ''data'' ''2024-05-01T10:00:00'' \<lparr>artifact_file = None, metadata_json = Missing\<rparr> =
   (Inl (HTTPException 400 ''This solver needs samples of at least 2 classes in the data, but the data contains only one class: 1''),
    \<lparr>artifact_file = None, metadata_json = Missing\<rparr>) \<and>
   retrain
     (\<lambda>df. Inl (ValueError ''This solver needs samples of at least 2 classes in the data, but the data contains only one class: 1''))
     (\<lambda>p. Table (replicate 5 \<lparr>attendance = Some (Finite 80), marks = Some (Finite 70),
                                internal_score = Some (Finite 15), result = Some 1\<rparr>))
     ''data'' ''2024-05-01T10:00:00'' \<lparr>artifact_file = None, metadata_json = Missing\<rparr> =
   (Inl (HTTPException 400 ''Insufficient data for training. Need at least 10 samples, got 5''),
    \<lparr>artifact_file = None, metadata_json = Missing\<rparr>)"
proof -
  let ?sk = "\<lambda>df :: sample list. (Inl (ValueError ''This solver needs samples of at least 2 classes in the data, but the data contains only one class: 1'') :: exc + fitted)"
  let ?lab = "\<lparr>attendance = Some (Finite 80), marks = Some (Finite 70),
               internal_score = Some (Finite 15), result = Some (1::int)\<rparr>"
  let ?st = "\<lparr>artifact_file = None, metadata_json = Missing\<rparr>"
  have five: "dropna_result (replicate 5 ?lab) = replicate 5 ?lab"
    and ten: "dropna_result (replicate 10 ?lab) = replicate 10 ?lab"
    by (simp_all add: dropna_result_def)
  have s5: "str_nat 5 = ''5''" by (simp add: str_nat.simps digit_char_def)
  have 1: "retrain ?sk (\<lambda>p. Table (replicate 10 ?lab)) ''data'' ''2024-05-01T10:00:00'' ?st =
        (Inl (retrain_handler (ValueError ''This solver needs samples of at least 2 classes in the data, but the data contains only one class: 1'')), ?st)"
    by (rule retrain_fit_error[where rows = "replicate 10 ?lab"]) (simp_all add: ten)
  have 2: "retrain ?sk (\<lambda>p. Table (replicate 5 ?lab)) ''data'' ''2024-05-01T10:00:00'' ?st =
        (Inl (HTTPException 400 (str_exc (insufficient_data (length (dropna_result (replicate 5 ?lab)))))), ?st)"
    by (rule retrain_insufficient[where rows = "replicate 5 ?lab"]) (simp_all add: five)
  from 1 2 show ?thesis
    unfolding five retrain_handler_ValueError by (simp add: insufficient_data_def s5)
qed

subsection \<open>Prediction\<close>

lemma label_of_iff: "label_of p t = 1 \<longleftrightarrow> float_ge p t"
  by (simp add: label_of_def)

lemma Predictor_predict_result:
  assumes "artifact_file st = Some model" and "Predictor_predict f env st x = Inr r"
  shows "\<exists>a m i t src.
           attendance x = Some a \<and> marks x = Some m \<and> internal_score x = Some i \<and>
           resolve_threshold_with_source f env (metadata_json st) = Inr (t, src) \<and>
           r = \<lparr>probability = model a m i, prediction = label_of (model a m i) t,
                threshold_used = t, threshold_source = src\<rparr>"
  using assms
  by (auto simp: Predictor_predict_def split: option.splits sum.splits prod.splits)

lemma predict_success:
  "predict f env st request = Inr r \<longleftrightarrow> Predictor_predict f env st request = Inr r"
  by (simp add: predict_def split: sum.splits)

text \<open>
  Claim C3. For every feature row on which \<^verbatim>\<open>predict\<close> succeeds, the returned
  probability lies in [0.0, 1.0], and the returned prediction is 1 exactly when the
  probability is at least the threshold reported, which is the value that the
  Threshold Resolver returns at that call. That the classifier's output is a
  probability is the contract of the persisted artifact, taken as a hypothesis.
\<close>

theorem predict_probability_and_label:
  assumes "artifact_file st = Some model"
    and "\<forall>a m i. within_0_1 (model a m i)"
    and "predict f env st request = Inr r"
  shows "within_0_1 (probability r) \<and>
         (prediction r = 1 \<longleftrightarrow> float_ge (probability r) (threshold_used r)) \<and>
         (prediction r = 0 \<or> prediction r = 1) \<and>
         resolve_threshold_with_source f env (metadata_json st) =
           Inr (threshold_used r, threshold_source r)"
proof -
  from assms(3) have "Predictor_predict f env st request = Inr r" by (simp add: predict_success)
  from Predictor_predict_result[OF assms(1) this] obtain a m i t src where
    res: "resolve_threshold_with_source f env (metadata_json st) = Inr (t, src)"
    and r: "r = \<lparr>probability = model a m i, prediction = label_of (model a m i) t,
                 threshold_used = t, threshold_source = src\<rparr>"
    by blast
  from assms(2) have "within_0_1 (model a m i)" by blast
  with res show ?thesis unfolding r by (simp add: label_of_def)
qed

theorem predict_probability_and_label_witness:
  "artifact_file \<lparr>artifact_file = Some (\<lambda>a m i. Finite (3 / 4)), metadata_json = Missing\<rparr> =
     Some (\<lambda>a m i. Finite (3 / 4)) \<and>
   (\<forall>a m i. within_0_1 ((\<lambda>a m i. Finite (3 / 4)) a m i)) \<and>
   predict (\<lambda>s. None) None
     \<lparr>artifact_file = Some (\<lambda>a m i. Finite (3 / 4)), metadata_json = Missing\<rparr>
     \<lparr>attendance = Some (Finite 80), marks = Some (Finite 70),
      internal_score = Some (Finite 15), final_exam_score = None\<rparr> =
   Inr \<lparr>probability = Finite (3 / 4), prediction = 1, threshold_used = float_0_6,
        threshold_source = ''default''\<rparr> \<and>
   within_0_1 (Finite (3 / 4)) \<and> float_ge (Finite (3 / 4)) float_0_6"
proof -
  let ?st = "\<lparr>artifact_file = Some (\<lambda>a m i. Finite (3 / 4)), metadata_json = Missing\<rparr>"
  let ?rq = "\<lparr>attendance = Some (Finite 80), marks = Some (Finite 70),
      internal_score = Some (Finite 15), final_exam_score = None\<rparr>"
  let ?r = "\<lparr>probability = Finite (3 / 4), prediction = 1, threshold_used = float_0_6,
        threshold_source = ''default''\<rparr>"
  have a: "artifact_file ?st = Some (\<lambda>a m i. Finite (3 / 4))" by simp
  have b: "\<forall>a m i. within_0_1 ((\<lambda>a m i. Finite (3 / 4)) a m i)" by (simp add: within_0_1_def)
  have c: "predict (\<lambda>s. None) None ?st ?rq = Inr ?r"
    by (simp add: predict_def Predictor_predict_def resolve_threshold_with_source_def
        env_override_def label_of_def float_0_6_def)
  from predict_probability_and_label[OF a b c]
  have "within_0_1 (probability ?r)" and "float_ge (probability ?r) (threshold_used ?r)"
    by simp_all
  with a b c show ?thesis by simp
qed

lemma map_filter_score_row:
  "List.map_filter (score_row model t src) (filter complete rows) =
   List.map_filter (score_row model t src) rows"
  by (induction rows)
     (auto simp: List.map_filter_simps score_row_def complete_def split: option.splits)

lemma score_row_complete:
  "complete e \<Longrightarrow> \<exists>p. score_row model t src e = Some p \<and>
     for_student_id p = student_id e \<and> for_course_id p = course_id e"
  by (auto simp: score_row_def complete_def)

lemma map_filter_complete:
  "map Some (List.map_filter (score_row model t src) (filter complete rows)) =
   map (score_row model t src) (filter complete rows)"
proof (induction rows)
  case Nil
  show ?case by (simp add: List.map_filter_simps)
next
  case (Cons e rows)
  show ?case
  proof (cases "complete e")
    case True
    from score_row_complete[OF True] obtain p where "score_row model t src e = Some p" by blast
    with True Cons show ?thesis by (simp add: List.map_filter_simps)
  next
    case False
    with Cons show ?thesis by simp
  qed
qed

lemma predict_batch_outcome:
  assumes "artifact_file st = Some model"
    and "resolve_threshold_with_source f env (metadata_json st) = Inr (t, src)"
  shows "predict_batch f env st enrollments =
         (if filter complete enrollments = []
          then Inl (HTTPException 500
                 (''Batch prediction error: '' @ str_exc (HTTPException 400 no_complete_data)))
          else Inr (List.map_filter (score_row model t src) (filter complete enrollments),
                    length (filter complete enrollments)))"
proof (cases "filter complete enrollments = []")
  case True
  then show ?thesis by (simp add: predict_batch_def Let_def)
next
  case False
  have "length (List.map_filter (score_row model t src) (filter complete enrollments)) =
        length (filter complete enrollments)"
    using arg_cong[OF map_filter_complete[of model t src enrollments], of length] by simp
  moreover from this False
  have "List.map_filter (score_row model t src) (filter complete enrollments) \<noteq> []"
    by (rule_tac notI) simp
  ultimately show ?thesis using False assms
    by (simp add: predict_batch_def Predictor_predict_batch_def Let_def map_filter_score_row)
qed


lemma map_filter_ids:
  "map (\<lambda>p. (for_student_id p, for_course_id p))
     (List.map_filter (score_row model t src) (filter complete rows)) =
   map (\<lambda>e. (student_id e, course_id e)) (filter complete rows)"
proof (induction rows)
  case Nil
  show ?case by (simp add: List.map_filter_simps)
next
  case (Cons e rows)
  show ?case
  proof (cases "complete e")
    case True
    from score_row_complete[OF True] obtain p where "score_row model t src e = Some p"
      and "for_student_id p = student_id e" and "for_course_id p = course_id e" by blast
    with True Cons show ?thesis by (simp add: List.map_filter_simps)
  next
    case False
    with Cons show ?thesis by simp
  qed
qed

text \<open>
  Claim C9. In batch prediction every row that lacks one of the three required
  features is excluded, and every other row yields exactly one result, tagged with the
  identifiers of its row, in the order of the input; the call fails only when no row
  is usable. This is stated for a trained model and a resolver that returns: without
  an artifact, or when the resolver raises, every prediction fails, batch or not.
\<close>

theorem predict_batch_excludes_incomplete_rows:
  assumes "artifact_file st = Some model"
    and "resolve_threshold_with_source f env (metadata_json st) = Inr (t, src)"
  shows "((\<forall>e \<in> set enrollments. \<not> complete e) \<longrightarrow>
            (\<exists>x. predict_batch f env st enrollments = Inl x)) \<and>
         ((\<exists>e \<in> set enrollments. complete e) \<longrightarrow>
            (\<exists>ps. predict_batch f env st enrollments = Inr (ps, length ps) \<and>
                  map Some ps = map (score_row model t src) (filter complete enrollments) \<and>
                  map (\<lambda>p. (for_student_id p, for_course_id p)) ps =
                  map (\<lambda>e. (student_id e, course_id e)) (filter complete enrollments)))"
proof (intro conjI impI)
  assume "\<forall>e \<in> set enrollments. \<not> complete e"
  then have "filter complete enrollments = []" by (simp add: filter_empty_conv)
  then show "\<exists>x. predict_batch f env st enrollments = Inl x"
    by (simp add: predict_batch_outcome[OF assms])
next
  let ?ps = "List.map_filter (score_row model t src) (filter complete enrollments)"
  assume "\<exists>e \<in> set enrollments. complete e"
  then have ne: "filter complete enrollments \<noteq> []" by (simp add: filter_empty_conv)
  have len: "length ?ps = length (filter complete enrollments)"
    using arg_cong[OF map_filter_complete[of model t src enrollments], of length] by simp
  have "predict_batch f env st enrollments = Inr (?ps, length ?ps)"
    using ne by (simp add: predict_batch_outcome[OF assms] len)
  then show "\<exists>ps. predict_batch f env st enrollments = Inr (ps, length ps) \<and>
                  map Some ps = map (score_row model t src) (filter complete enrollments) \<and>
                  map (\<lambda>p. (for_student_id p, for_course_id p)) ps =
                  map (\<lambda>e. (student_id e, course_id e)) (filter complete enrollments)"
    using map_filter_complete[of model t src enrollments] map_filter_ids[of model t src enrollments]
    by blast
qed

theorem predict_batch_excludes_incomplete_rows_witness:
  "artifact_file \<lparr>artifact_file = Some (\<lambda>a m i. Finite (3 / 4)), metadata_json = Missing\<rparr> =
     Some (\<lambda>a m i. Finite (3 / 4)) \<and>
   resolve_threshold_with_source (\<lambda>s. None) None
     (metadata_json \<lparr>artifact_file = Some (\<lambda>a m i. Finite (3 / 4)), metadata_json = Missing\<rparr>) =
     Inr (float_0_6, ''default'') \<and>
   (\<exists>ps. predict_batch (\<lambda>s. None) None
            \<lparr>artifact_file = Some (\<lambda>a m i. Finite (3 / 4)), metadata_json = Missing\<rparr>
            [\<lparr>attendance = Some (Finite 80), marks = Some (Finite 70),
              internal_score = Some (Finite 15), student_id = 1, course_id = 10\<rparr>,
             \<lparr>attendance = Some (Finite 80), marks = Some (Finite 70),
              internal_score = None, student_id = 2, course_id = 10\<rparr>,
             \<lparr>attendance = Some (Finite 80), marks = Some (Finite 70),
              internal_score = Some (Finite 15), student_id = 3, course_id = 10\<rparr>,
             \<lparr>attendance = Some (Finite 80), marks = Some (Finite 70),
              internal_score = None, student_id = 4, course_id = 10\<rparr>,
             \<lparr>attendance = Some (Finite 80), marks = Some (Finite 70),
              internal_score = Some (Finite 15), student_id = 5, course_id = 10\<rparr>] =
          Inr (ps, 3) \<and>
          map (\<lambda>p. (for_student_id p, for_course_id p)) ps = [(1, 10), (3, 10), (5, 10)])"
proof -
  let ?st = "\<lparr>artifact_file = Some (\<lambda>a m i. Finite (3 / 4)), metadata_json = Missing\<rparr>"
  let ?rows = "[\<lparr>attendance = Some (Finite 80), marks = Some (Finite 70),
              internal_score = Some (Finite 15), student_id = 1, course_id = 10\<rparr>,
             \<lparr>attendance = Some (Finite 80), marks = Some (Finite 70),
              internal_score = None, student_id = 2, course_id = 10\<rparr>,
             \<lparr>attendance = Some (Finite 80), marks = Some (Finite 70),
              internal_score = Some (Finite 15), student_id = 3, course_id = 10\<rparr>,
             \<lparr>attendance = Some (Finite 80), marks = Some (Finite 70),
              internal_score = None, student_id = 4, course_id = 10\<rparr>,
             \<lparr>attendance = Some (Finite 80), marks = Some (Finite 70),
              internal_score = Some (Finite 15), student_id = 5, course_id = 10\<rparr>]"
  have a: "artifact_file ?st = Some (\<lambda>a m i. Finite (3 / 4))" by simp
  have b: "resolve_threshold_with_source (\<lambda>s. None) None (metadata_json ?st) =
           Inr (float_0_6, ''default'')"
    by (simp add: resolve_threshold_with_source_def env_override_def)
  have some: "\<exists>e \<in> set ?rows. complete e" by (simp add: complete_def)
  have kept: "map (\<lambda>e. (student_id e, course_id e)) (filter complete ?rows) =
              [(1, 10), (3, 10), (5, 10)]"
    by (simp add: complete_def)
  from predict_batch_excludes_incomplete_rows[OF a b, of ?rows] some
  obtain ps where ps: "predict_batch (\<lambda>s. None) None ?st ?rows = Inr (ps, length ps)"
    and ids: "map (\<lambda>p. (for_student_id p, for_course_id p)) ps =
              map (\<lambda>e. (student_id e, course_id e)) (filter complete ?rows)"
    by blast
  from ids have "length ps = 3" unfolding kept
    by (metis length_map list.size(3,4) One_nat_def Suc_eq_plus1 numeral_3_eq_3)
  with ps ids kept a b show ?thesis by auto
qed

end
